theory Spec2Isabelle
  imports Main
begin

section \<open>The lecture catalog client (frontend/app/student/lectures.ts)\<close>

text \<open>
  The module holds one binding, \<open>apiBaseUrl\<close>, and two asynchronous functions,
  \<open>fetchLectures\<close> and \<open>fetchLecture\<close>. Each awaits one call of the platform's
  \<open>fetch\<close>, tests \<open>response.ok\<close>, and awaits \<open>response.json()\<close>. The platform (the
  process environment, the HTTP mechanism, the JSON decoder) is not part of the module; it
  is a parameter of the model. A promise is modelled by what it settles with: a rejection
  is \<open>Inl\<close>, a fulfilment is \<open>Inr\<close>. The promises of the platform are taken to settle; the
  module sets no timeout, so a request that is never answered leaves the caller waiting,
  which no statement below is about.
\<close>

subsection \<open>Decoded JSON values and the \<open>Lecture\<close> type\<close>

text \<open>
  What \<open>response.json()\<close> can fulfil with. The representation of numbers is left open
  (the type parameter): no field of a \<open>Lecture\<close> is a number and the module looks at none.
\<close>

datatype 'n json =
    JNull
  | JBool bool
  | JNumber 'n
  | JString string
  | JArray "'n json list"
  | JObject "(string \<times> 'n json) list"

text \<open>
  Reading a property of a decoded object. A repeated key of a JSON text is decoded to its
  last value, so the members are searched from the end. Every other value has no property
  of its own.
\<close>

fun property :: "'n json \<Rightarrow> string \<Rightarrow> 'n json option" where
  "property (JObject members) key = map_of (rev members) key"
| "property _ key = None"

fun is_string :: "'n json option \<Rightarrow> bool" where
  "is_string (Some (JString s)) = True"
| "is_string _ = False"

text \<open>The element type of \<open>keyConcepts\<close> (lines 10 to 13): \<open>{ title: string; timestamp: string }\<close>.\<close>

definition is_key_concept :: "'n json \<Rightarrow> bool" where
  "is_key_concept v \<longleftrightarrow>
     is_string (property v ''title'') \<and> is_string (property v ''timestamp'')"

fun is_key_concepts :: "'n json option \<Rightarrow> bool" where
  "is_key_concepts (Some (JArray cs)) = list_all is_key_concept cs"
| "is_key_concepts _ = False"

text \<open>
  The type \<open>Lecture\<close> (lines 1 to 14) as a predicate on decoded values: an object whose
  eight text fields are strings and whose \<open>keyConcepts\<close> is an array of concept markers.
  TypeScript erases the type; the predicate only says which values the type describes.
\<close>

definition is_lecture :: "'n json \<Rightarrow> bool" where
  "is_lecture v \<longleftrightarrow>
     is_string (property v ''slug'') \<and>
     is_string (property v ''title'') \<and>
     is_string (property v ''description'') \<and>
     is_string (property v ''duration'') \<and>
     is_string (property v ''image'') \<and>
     is_string (property v ''publishedDate'') \<and>
     is_string (property v ''views'') \<and>
     is_string (property v ''aiSummary'') \<and>
     is_key_concepts (property v ''keyConcepts'')"

subsection \<open>The platform\<close>

text \<open>The second argument of \<open>fetch\<close>; the module sets the one member \<open>cache\<close>.\<close>

record RequestInit =
  cache :: string

text \<open>One call \<open>fetch(input, init)\<close>.\<close>

record request =
  input :: string
  init :: RequestInit

text \<open>
  A response: its status code and the text of its body. \<open>response.ok\<close> is the getter of
  the Fetch standard, true exactly for a status from 200 to 299.
\<close>

record response =
  status :: nat
  body :: string

definition ok :: "response \<Rightarrow> bool" where
  "ok r \<longleftrightarrow> 200 \<le> status r \<and> status r \<le> 299"

text \<open>
  The platform at the time of a call: the process environment, what \<open>fetch\<close> settles with
  for a request (a rejection of type \<open>'p\<close> or a response), and what decoding a body as JSON
  settles with (a rejection or a decoded value of type \<open>'v\<close>).
\<close>

record ('p, 'v) platform =
  env :: "string \<rightharpoonup> string"
  fetch :: "request \<Rightarrow> 'p + response"
  json :: "string \<Rightarrow> 'p + 'v"

text \<open>
  What an operation can reject with: an \<open>Error\<close> object the module itself constructs with
  \<open>new Error(message)\<close>, or the very value a platform promise rejected with.
\<close>

datatype 'p thrown =
    Error string
  | Rejected 'p

subsection \<open>The module\<close>

text \<open>
  Line 16, evaluated once when the module is loaded:
  \<^verbatim>\<open>const apiBaseUrl = process.env.NEXT_PUBLIC_API_URL ?? "http://localhost:8000";\<close>
  A variable that is not set reads as \<open>undefined\<close>, the only case in which \<open>??\<close> takes its
  right operand here.
\<close>

definition apiBaseUrl :: "(string \<rightharpoonup> string) \<Rightarrow> string" where
  "apiBaseUrl process_env =
     (case process_env ''NEXT_PUBLIC_API_URL'' of
        None \<Rightarrow> ''http://localhost:8000''
      | Some override \<Rightarrow> override)"

text \<open>
  An operation is given the value of the module's binding (\<open>base\<close>) and the platform of the
  moment; it yields the calls of \<open>fetch\<close> it made, in order, and what its promise settles
  with.
\<close>

definition fetchLectures ::
  "string \<Rightarrow> ('p, 'v) platform \<Rightarrow> request list \<times> ('p thrown + 'v)" where
  "fetchLectures base p =
     (let call = \<lparr>input = base @ ''/api/lectures'', init = \<lparr>cache = ''no-store''\<rparr>\<rparr> in
      case fetch p call of
        Inl reason \<Rightarrow> ([call], Inl (Rejected reason))
      | Inr response \<Rightarrow>
          if \<not> ok response then ([call], Inl (Error ''Unable to load lectures''))
          else (case json p (body response) of
                  Inl reason \<Rightarrow> ([call], Inl (Rejected reason))
                | Inr payload \<Rightarrow> ([call], Inr payload)))"

definition fetchLecture ::
  "string \<Rightarrow> string \<Rightarrow> ('p, 'v) platform \<Rightarrow> request list \<times> ('p thrown + 'v)" where
  "fetchLecture base slug p =
     (let call = \<lparr>input = base @ ''/api/lectures/'' @ slug, init = \<lparr>cache = ''no-store''\<rparr>\<rparr> in
      case fetch p call of
        Inl reason \<Rightarrow> ([call], Inl (Rejected reason))
      | Inr response \<Rightarrow>
          if \<not> ok response then ([call], Inl (Error ''Lecture not found''))
          else (case json p (body response) of
                  Inl reason \<Rightarrow> ([call], Inl (Rejected reason))
                | Inr payload \<Rightarrow> ([call], Inr payload)))"

subsection \<open>Callers\<close>

text \<open>
  A caller invokes one of the two exported functions. A program loads the module in a
  process environment, which evaluates line 16 once, and then makes its calls one after
  the other, each against the platform as it is at that moment (whose process environment
  may differ from the one at load time).
\<close>

datatype operation =
    FetchLectures
  | FetchLecture string

fun invoke ::
  "string \<Rightarrow> operation \<Rightarrow> ('p, 'v) platform \<Rightarrow> request list \<times> ('p thrown + 'v)" where
  "invoke base FetchLectures p = fetchLectures base p"
| "invoke base (FetchLecture slug) p = fetchLecture base slug p"

definition program ::
  "(string \<rightharpoonup> string) \<Rightarrow> (operation \<times> ('p, 'v) platform) list
     \<Rightarrow> (request list \<times> ('p thrown + 'v)) list" where
  "program process_env script =
     (let base = apiBaseUrl process_env in map (\<lambda>(call, p). invoke base call p) script)"

text \<open>
  Names for the two calls of \<open>fetch\<close> the module writes (lines 19 to 21 and 32 to 34) and
  for a status from 200 to 299, used in the statements of the properties.
\<close>

abbreviation listing_call :: "string \<Rightarrow> request" where
  "listing_call base \<equiv> \<lparr>input = base @ ''/api/lectures'', init = \<lparr>cache = ''no-store''\<rparr>\<rparr>"

abbreviation detail_call :: "string \<Rightarrow> string \<Rightarrow> request" where
  "detail_call base slug \<equiv>
     \<lparr>input = base @ ''/api/lectures/'' @ slug, init = \<lparr>cache = ''no-store''\<rparr>\<rparr>"

abbreviation success_status :: "response \<Rightarrow> bool" where
  "success_status r \<equiv> 200 \<le> status r \<and> status r \<le> 299"

subsection \<open>Simulated platforms\<close>

text \<open>
  A remote service that answers every request with one status and one body, a host that
  cannot be reached, and a decoder that knows a single text. They instantiate the
  theorems below on the scenarios of the specification.
\<close>

definition simulated :: "nat \<Rightarrow> string \<Rightarrow> (string \<Rightarrow> 'p + 'v) \<Rightarrow> ('p, 'v) platform" where
  "simulated code text decode =
     \<lparr>env = Map.empty, fetch = (\<lambda>call. Inr \<lparr>status = code, body = text\<rparr>), json = decode\<rparr>"

definition unreachable :: "'p \<Rightarrow> ('p, 'v) platform" where
  "unreachable reason =
     \<lparr>env = Map.empty, fetch = (\<lambda>call. Inl reason), json = (\<lambda>text. Inl reason)\<rparr>"

definition decode_only :: "string \<Rightarrow> 'v \<Rightarrow> string \<Rightarrow> string + 'v" where
  "decode_only text v s = (if s = text then Inr v else Inl ''SyntaxError'')"

definition scenario_body :: string where
  \<open>scenario_body = ''[{"slug":"a","title":"A","description":"d","duration":"10:00","image":"/a.png","publishedDate":"2024-01-01","views":"100","aiSummary":"s","keyConcepts":[]}]''\<close>

definition scenario_lecture :: "nat json" where
  "scenario_lecture = JObject
     [(''slug'', JString ''a''), (''title'', JString ''A''), (''description'', JString ''d''),
      (''duration'', JString ''10:00''), (''image'', JString ''/a.png''),
      (''publishedDate'', JString ''2024-01-01''), (''views'', JString ''100''),
      (''aiSummary'', JString ''s''), (''keyConcepts'', JArray [])]"

definition scenario_detail_body :: string where
  \<open>scenario_detail_body = ''{"slug":"a","title":"A","description":"d","duration":"10:00","image":"/a.png","publishedDate":"2024-01-01","views":"100","aiSummary":"s","keyConcepts":[]}''\<close>

definition truncated_body :: string where
  \<open>truncated_body = ''{"detail":''\<close>

definition failing_decoder :: "string \<Rightarrow> string + nat json" where
  "failing_decoder text = Inl ''SyntaxError''"

section \<open>Properties\<close>

subsection \<open>Auxiliary facts\<close>

lemma fetchLectures_calls: "fst (fetchLectures base p) = [listing_call base]"
  by (simp add: fetchLectures_def Let_def split: sum.split)

lemma fetchLecture_calls: "fst (fetchLecture base slug p) = [detail_call base slug]"
  by (simp add: fetchLecture_def Let_def split: sum.split)

lemma fetchLectures_outcome:
  "snd (fetchLectures base p) =
     (case fetch p (listing_call base) of
        Inl reason \<Rightarrow> Inl (Rejected reason)
      | Inr r \<Rightarrow>
          if ok r then (case json p (body r) of
                          Inl reason \<Rightarrow> Inl (Rejected reason)
                        | Inr payload \<Rightarrow> Inr payload)
          else Inl (Error ''Unable to load lectures''))"
  by (simp add: fetchLectures_def Let_def split: sum.split)

lemma fetchLecture_outcome:
  "snd (fetchLecture base slug p) =
     (case fetch p (detail_call base slug) of
        Inl reason \<Rightarrow> Inl (Rejected reason)
      | Inr r \<Rightarrow>
          if ok r then (case json p (body r) of
                          Inl reason \<Rightarrow> Inl (Rejected reason)
                        | Inr payload \<Rightarrow> Inr payload)
          else Inl (Error ''Lecture not found''))"
  by (simp add: fetchLecture_def Let_def split: sum.split)

lemma error_status_not_ok: "status r \<in> {400, 404, 500, 503} \<Longrightarrow> \<not> ok r"
  by (auto simp: ok_def)

lemma invoke_calls:
  "map input (fst (invoke base call p)) =
     (case call of
        FetchLectures \<Rightarrow> [base @ ''/api/lectures'']
      | FetchLecture slug \<Rightarrow> [base @ ''/api/lectures/'' @ slug])"
  by (cases call) (simp_all add: fetchLectures_calls fetchLecture_calls)

lemma invoke_cache: "map (\<lambda>call. cache (init call)) (fst (invoke base call p)) = [''no-store'']"
  by (cases call) (simp_all add: fetchLectures_calls fetchLecture_calls)

lemma invoke_env: "invoke base call (p\<lparr>env := later\<rparr>) = invoke base call p"
  by (cases call) (simp_all add: fetchLectures_def fetchLecture_def Let_def split: sum.split)

lemma is_lecture_scenario: "is_lecture scenario_lecture"
  by (simp add: is_lecture_def scenario_lecture_def)

subsection \<open>The listing\<close>

text \<open>
  C1. When the service answers the listing request with a success status (200 to 299) and
  the body decodes to an array of \<open>N\<close> values of type \<open>Lecture\<close>, \<open>fetchLectures\<close> fulfils
  with an array of exactly \<open>N\<close> elements that is the decoded array itself: the same
  elements in the same order, nothing changed, dropped or re-sorted.
\<close>

theorem fetchLectures_returns_listing:
  assumes "fetch p (listing_call base) = Inr r"
    and "success_status r"
    and "json p (body r) = Inr (JArray lectures)"
    and "list_all is_lecture lectures"
    and "length lectures = N"
  shows "\<exists>returned. snd (fetchLectures base p) = Inr (JArray returned) \<and>
           length returned = N \<and> returned = lectures"
  using assms by (simp add: fetchLectures_outcome ok_def)

theorem fetchLectures_returns_listing_witness:
  "snd (fetchLectures ''http://localhost:8000''
          (simulated 200 scenario_body (decode_only scenario_body (JArray [scenario_lecture]))))
     = Inr (JArray [scenario_lecture])"
  using fetchLectures_returns_listing
    [of "simulated 200 scenario_body (decode_only scenario_body (JArray [scenario_lecture]))"
        "''http://localhost:8000''" "\<lparr>status = 200, body = scenario_body\<rparr>"
        "[scenario_lecture]" 1]
  by (simp add: simulated_def decode_only_def is_lecture_scenario)

text \<open>
  C2. When the service answers the listing request with a status that is not a success
  status, in particular 400, 404, 500 or 503, \<open>fetchLectures\<close> rejects with the error
  \<open>Unable to load lectures\<close>, whatever the body is and whatever decoding it would give:
  the body is never read. It is the only error the function constructs itself: whenever
  its outcome is an \<open>Error\<close> of the module, the message is that one and the service had
  answered with a status outside 200 to 299.
\<close>

theorem fetchLectures_listing_unavailable:
  "(fetch p (listing_call base) = Inr r \<and>
      (\<not> success_status r \<or> status r \<in> {400, 404, 500, 503})
     \<longrightarrow> snd (fetchLectures base p) = Inl (Error ''Unable to load lectures'')) \<and>
   (snd (fetchLectures base p) = Inl (Error message)
     \<longrightarrow> message = ''Unable to load lectures'' \<and>
         (\<exists>answer. fetch p (listing_call base) = Inr answer \<and> \<not> success_status answer))"
proof (intro conjI impI)
  assume "fetch p (listing_call base) = Inr r \<and>
    (\<not> success_status r \<or> status r \<in> {400, 404, 500, 503})"
  then have "fetch p (listing_call base) = Inr r" and "\<not> ok r"
    using error_status_not_ok [of r] by (auto simp: ok_def)
  then show "snd (fetchLectures base p) = Inl (Error ''Unable to load lectures'')"
    by (simp add: fetchLectures_outcome)
next
  assume failed: "snd (fetchLectures base p) = Inl (Error message)"
  then show "message = ''Unable to load lectures''"
    by (auto simp: fetchLectures_outcome split: sum.splits if_splits)
  from failed
  show "\<exists>answer. fetch p (listing_call base) = Inr answer \<and> \<not> success_status answer"
    by (auto simp: fetchLectures_outcome ok_def split: sum.splits if_splits)
qed

theorem fetchLectures_listing_unavailable_witness:
  "snd (fetchLectures ''http://localhost:8000'' (simulated 503 [] failing_decoder))
     = Inl (Error ''Unable to load lectures'') \<and>
   snd (fetchLectures ''http://localhost:8000'' (simulated 404 truncated_body failing_decoder))
     = Inl (Error ''Unable to load lectures'')"
  using
    fetchLectures_listing_unavailable
      [of "simulated 503 [] failing_decoder" "''http://localhost:8000''"
          "\<lparr>status = 503, body = []\<rparr>" "''Unable to load lectures''"]
    fetchLectures_listing_unavailable
      [of "simulated 404 truncated_body failing_decoder" "''http://localhost:8000''"
          "\<lparr>status = 404, body = truncated_body\<rparr>" "''Unable to load lectures''"]
  by (simp add: simulated_def)

subsection \<open>One lecture\<close>

text \<open>
  C3. For a non-empty slug, when the service answers the detail request with a status that
  is not a success status, in particular 400, 404, 500 or 503, \<open>fetchLecture\<close> rejects
  with the error \<open>Lecture not found\<close>. The error is the same value for every such status,
  body and slug, so the cause cannot be told from it.
\<close>

theorem fetchLecture_not_found:
  assumes "slug \<noteq> []"
    and "fetch p (detail_call base slug) = Inr r"
    and "\<not> success_status r \<or> status r \<in> {400, 404, 500, 503}"
  shows "snd (fetchLecture base slug p) = Inl (Error ''Lecture not found'')"
proof -
  have "\<not> ok r"
    using assms(3) error_status_not_ok [of r] by (auto simp: ok_def)
  with assms(2) show ?thesis
    by (simp add: fetchLecture_outcome)
qed

theorem fetchLecture_not_found_witness:
  "snd (fetchLecture ''http://localhost:8000'' ''missing'' (simulated 404 [] failing_decoder))
     = Inl (Error ''Lecture not found'') \<and>
   snd (fetchLecture ''http://localhost:8000'' ''a'' (simulated 500 truncated_body failing_decoder))
     = Inl (Error ''Lecture not found'')"
  using
    fetchLecture_not_found
      [of "''missing''" "simulated 404 [] failing_decoder" "''http://localhost:8000''"
          "\<lparr>status = 404, body = []\<rparr>"]
    fetchLecture_not_found
      [of "''a''" "simulated 500 truncated_body failing_decoder" "''http://localhost:8000''"
          "\<lparr>status = 500, body = truncated_body\<rparr>"]
  by (simp add: simulated_def)

text \<open>
  C4. For a non-empty slug, when the service answers the detail request with a success
  status and the body decodes to a value of type \<open>Lecture\<close>, \<open>fetchLecture\<close> fulfils with
  that value: every property of the returned object reads as in the decoded one.
\<close>

theorem fetchLecture_returns_lecture:
  assumes "slug \<noteq> []"
    and "fetch p (detail_call base slug) = Inr r"
    and "success_status r"
    and "json p (body r) = Inr lecture"
    and "is_lecture lecture"
  shows "\<exists>returned. snd (fetchLecture base slug p) = Inr returned \<and>
           returned = lecture \<and> (\<forall>field. property returned field = property lecture field)"
  using assms by (simp add: fetchLecture_outcome ok_def)

theorem fetchLecture_returns_lecture_witness:
  "snd (fetchLecture ''http://localhost:8000'' ''a''
          (simulated 200 scenario_detail_body (decode_only scenario_detail_body scenario_lecture)))
     = Inr scenario_lecture"
  using fetchLecture_returns_lecture
    [of "''a''" "simulated 200 scenario_detail_body (decode_only scenario_detail_body scenario_lecture)"
        "''http://localhost:8000''" "\<lparr>status = 200, body = scenario_detail_body\<rparr>"
        scenario_lecture]
  by (simp add: simulated_def decode_only_def is_lecture_scenario)

subsection \<open>The requests\<close>

text \<open>
  C5. \<open>fetchLecture\<close> makes one call of \<open>fetch\<close>, whose address is the base address
  followed by \<open>/api/lectures/\<close> and the identifier as it was given (for
  \<open>intro-to-systems\<close>, the base address followed by \<open>/api/lectures/intro-to-systems\<close>);
  \<open>fetchLectures\<close> makes one call, whose address is the base address followed by
  \<open>/api/lectures\<close> and nothing more.
\<close>

theorem request_targets:
  "map input (fst (fetchLecture base identifier p)) = [base @ ''/api/lectures/'' @ identifier] \<and>
   map input (fst (fetchLecture base ''intro-to-systems'' p))
     = [base @ ''/api/lectures/intro-to-systems''] \<and>
   map input (fst (fetchLectures base p)) = [base @ ''/api/lectures'']"
  by (simp add: fetchLectures_calls fetchLecture_calls)

text \<open>
  C6. Every call of \<open>fetch\<close> made by either function carries \<open>cache: "no-store"\<close>: each
  function makes exactly one call and that call has the member, and so do all the calls
  of a program, one per invocation.
\<close>

theorem requests_disable_caching:
  "map (\<lambda>call. cache (init call)) (fst (fetchLectures base p)) = [''no-store''] \<and>
   map (\<lambda>call. cache (init call)) (fst (fetchLecture base slug p)) = [''no-store''] \<and>
   map (\<lambda>call. cache (init call)) (concat (map fst (program process_env script)))
     = replicate (length script) ''no-store''"
proof -
  have "map (\<lambda>call. cache (init call))
          (concat (map fst (map (\<lambda>(call, p). invoke b call p) script)))
        = replicate (length script) ''no-store''" for b
  proof (induction script)
    case Nil
    show ?case by simp
  next
    case (Cons step rest)
    obtain call p where step: "step = (call, p)" by (cases step)
    show ?case
      using Cons.IH by (simp add: step invoke_cache)
  qed
  then show ?thesis
    by (simp add: program_def fetchLectures_calls fetchLecture_calls)
qed

text \<open>
  C7. The base address is the value of \<open>NEXT_PUBLIC_API_URL\<close> in the process environment
  in which the module is loaded, and \<open>http://localhost:8000\<close> when the variable is not set
  there. Every call of a program has that value in front of its path, and a change of the
  process environment after loading changes neither the requests nor the outcomes.
\<close>

theorem base_address_resolved_once:
  "apiBaseUrl (process_env(''NEXT_PUBLIC_API_URL'' := None)) = ''http://localhost:8000'' \<and>
   apiBaseUrl (process_env(''NEXT_PUBLIC_API_URL'' \<mapsto> override)) = override \<and>
   map (\<lambda>(calls, outcome). map input calls) (program process_env script)
     = map (\<lambda>(call, p). case call of
                FetchLectures \<Rightarrow> [apiBaseUrl process_env @ ''/api/lectures'']
              | FetchLecture slug \<Rightarrow> [apiBaseUrl process_env @ ''/api/lectures/'' @ slug]) script \<and>
   program process_env (map (\<lambda>(call, p). (call, p\<lparr>env := later call p\<rparr>)) script)
     = program process_env script"
proof (intro conjI)
  show "apiBaseUrl (process_env(''NEXT_PUBLIC_API_URL'' := None)) = ''http://localhost:8000''"
    by (simp add: apiBaseUrl_def)
  show "apiBaseUrl (process_env(''NEXT_PUBLIC_API_URL'' \<mapsto> override)) = override"
    by (simp add: apiBaseUrl_def)
  show "map (\<lambda>(calls, outcome). map input calls) (program process_env script)
     = map (\<lambda>(call, p). case call of
                FetchLectures \<Rightarrow> [apiBaseUrl process_env @ ''/api/lectures'']
              | FetchLecture slug \<Rightarrow> [apiBaseUrl process_env @ ''/api/lectures/'' @ slug]) script"
    by (simp add: program_def Let_def split_beta invoke_calls comp_def)
  show "program process_env (map (\<lambda>(call, p). (call, p\<lparr>env := later call p\<rparr>)) script)
     = program process_env script"
    by (simp add: program_def Let_def split_beta invoke_env comp_def)
qed

subsection \<open>Failures of the platform\<close>

text \<open>
  C8. In both functions, when \<open>fetch\<close> rejects, and when the response has a success
  status and decoding its body rejects, the function rejects with the very value the
  platform rejected with, which is neither of the module's two errors.
\<close>

theorem platform_failures_propagate:
  "(fetch p (listing_call base) = Inl reason
     \<longrightarrow> snd (fetchLectures base p) = Inl (Rejected reason)) \<and>
   (fetch p (listing_call base) = Inr r \<and> success_status r \<and> json p (body r) = Inl reason
     \<longrightarrow> snd (fetchLectures base p) = Inl (Rejected reason)) \<and>
   (fetch p (detail_call base slug) = Inl reason
     \<longrightarrow> snd (fetchLecture base slug p) = Inl (Rejected reason)) \<and>
   (fetch p (detail_call base slug) = Inr r \<and> success_status r \<and> json p (body r) = Inl reason
     \<longrightarrow> snd (fetchLecture base slug p) = Inl (Rejected reason)) \<and>
   Rejected reason \<noteq> Error ''Unable to load lectures'' \<and>
   Rejected reason \<noteq> Error ''Lecture not found''"
  by (simp add: fetchLectures_outcome fetchLecture_outcome ok_def)

theorem platform_failures_propagate_witness:
  "snd (fetchLectures ''http://localhost:8000''
          (unreachable ''TypeError: fetch failed'' :: (string, nat json) platform))
     = Inl (Rejected ''TypeError: fetch failed'') \<and>
   snd (fetchLecture ''http://localhost:8000'' ''a''
          (unreachable ''TypeError: fetch failed'' :: (string, nat json) platform))
     = Inl (Rejected ''TypeError: fetch failed'') \<and>
   snd (fetchLectures ''http://localhost:8000'' (simulated 200 truncated_body failing_decoder))
     = Inl (Rejected ''SyntaxError'') \<and>
   snd (fetchLecture ''http://localhost:8000'' ''a'' (simulated 200 [] failing_decoder))
     = Inl (Rejected ''SyntaxError'')"
  using
    platform_failures_propagate
      [of "unreachable ''TypeError: fetch failed'' :: (string, nat json) platform"
          "''http://localhost:8000''" "''TypeError: fetch failed''" "\<lparr>status = 0, body = []\<rparr>" "''a''"]
    platform_failures_propagate
      [of "simulated 200 truncated_body failing_decoder" "''http://localhost:8000''"
          "''SyntaxError''" "\<lparr>status = 200, body = truncated_body\<rparr>" "''a''"]
    platform_failures_propagate
      [of "simulated 200 [] failing_decoder" "''http://localhost:8000''"
          "''SyntaxError''" "\<lparr>status = 200, body = []\<rparr>" "''a''"]
  by (simp add: simulated_def unreachable_def failing_decoder_def)

text \<open>
  C9. \<open>fetchLecture\<close> does not check its argument. For every slug, the empty one included,
  it makes the call with the slug appended as it is; for the empty slug the address is the
  base address followed by \<open>/api/lectures/\<close>. It rejects with an error of its own only
  when the service has answered with a status outside 200 to 299, and with the empty slug
  it fulfils like any other when the service answers with success.
\<close>

theorem fetchLecture_no_local_validation:
  "fst (fetchLecture base slug p)
     = [\<lparr>input = base @ ''/api/lectures/'' @ slug, init = \<lparr>cache = ''no-store''\<rparr>\<rparr>] \<and>
   map input (fst (fetchLecture base [] p)) = [base @ ''/api/lectures/''] \<and>
   (snd (fetchLecture base slug p) = Inl (Error message)
     \<longrightarrow> (\<exists>answer. fetch p (detail_call base slug) = Inr answer \<and> \<not> success_status answer)) \<and>
   (fetch p (detail_call base []) = Inr r \<and> success_status r \<and> json p (body r) = Inr v
     \<longrightarrow> snd (fetchLecture base [] p) = Inr v)"
proof (intro conjI impI)
  show "fst (fetchLecture base slug p) = [detail_call base slug]"
    by (rule fetchLecture_calls)
  show "map input (fst (fetchLecture base [] p)) = [base @ ''/api/lectures/'']"
    by (simp add: fetchLecture_calls)
next
  assume "snd (fetchLecture base slug p) = Inl (Error message)"
  then show "\<exists>answer. fetch p (detail_call base slug) = Inr answer \<and> \<not> success_status answer"
    by (auto simp: fetchLecture_outcome ok_def split: sum.splits if_splits)
next
  assume "fetch p (detail_call base []) = Inr r \<and> success_status r \<and> json p (body r) = Inr v"
  then show "snd (fetchLecture base [] p) = Inr v"
    by (simp add: fetchLecture_outcome ok_def)
qed

theorem fetchLecture_no_local_validation_witness:
  "fst (fetchLecture ''http://localhost:8000'' [] (simulated 404 [] failing_decoder))
     = [\<lparr>input = ''http://localhost:8000/api/lectures/'', init = \<lparr>cache = ''no-store''\<rparr>\<rparr>] \<and>
   snd (fetchLecture ''http://localhost:8000'' []
          (simulated 200 scenario_body (decode_only scenario_body (JArray [scenario_lecture]))))
     = Inr (JArray [scenario_lecture]) \<and>
   (\<exists>answer. fetch (simulated 404 [] failing_decoder) (detail_call ''http://localhost:8000'' [])
        = Inr answer \<and> \<not> success_status answer)"
proof -
  have rejected:
    "snd (fetchLecture ''http://localhost:8000'' [] (simulated 404 [] failing_decoder))
       = Inl (Error ''Lecture not found'')"
    by (simp add: fetchLecture_outcome simulated_def ok_def)
  show ?thesis
    using
      fetchLecture_no_local_validation
        [of "''http://localhost:8000''" "[]" "simulated 404 [] failing_decoder"
            "''Lecture not found''" "\<lparr>status = 404, body = []\<rparr>" JNull]
      fetchLecture_no_local_validation
        [of "''http://localhost:8000''" "[]"
            "simulated 200 scenario_body (decode_only scenario_body (JArray [scenario_lecture]))"
            "''Lecture not found''" "\<lparr>status = 200, body = scenario_body\<rparr>"
            "JArray [scenario_lecture]"]
      rejected
    by (simp add: simulated_def decode_only_def)
qed

text \<open>
  C10. On a response with a success status, both functions fulfil with whatever the body
  decodes to, of any shape: the decoded value is returned as it is and never inspected.
\<close>

theorem success_body_not_validated:
  "(fetch p (listing_call base) = Inr r \<and> success_status r \<and> json p (body r) = Inr v
     \<longrightarrow> snd (fetchLectures base p) = Inr v) \<and>
   (fetch p (detail_call base slug) = Inr r \<and> success_status r \<and> json p (body r) = Inr v
     \<longrightarrow> snd (fetchLecture base slug p) = Inr v)"
  by (simp add: fetchLectures_outcome fetchLecture_outcome ok_def)

theorem success_body_not_validated_witness:
  "snd (fetchLectures ''http://localhost:8000''
          (simulated 200 ''null'' (decode_only ''null'' (JNull :: nat json)))) = Inr JNull \<and>
   snd (fetchLectures ''http://localhost:8000''
          (simulated 201 ''7'' (decode_only ''7'' (JNumber (7 :: nat))))) = Inr (JNumber 7) \<and>
   snd (fetchLectures ''http://localhost:8000''
          (simulated 200 ''{}'' (decode_only ''{}'' (JObject [] :: nat json)))) = Inr (JObject []) \<and>
   snd (fetchLecture ''http://localhost:8000'' ''a''
          (simulated 200 ''[]'' (decode_only ''[]'' (JArray [] :: nat json)))) = Inr (JArray []) \<and>
   snd (fetchLecture ''http://localhost:8000'' ''a''
          (simulated 299 ''{}'' (decode_only ''{}'' (JObject [] :: nat json)))) = Inr (JObject []) \<and>
   \<not> is_lecture (JObject [] :: nat json) \<and> \<not> is_lecture (JArray [] :: nat json)"
  using
    success_body_not_validated
      [of "simulated 200 ''null'' (decode_only ''null'' (JNull :: nat json))"
          "''http://localhost:8000''" "\<lparr>status = 200, body = ''null''\<rparr>" JNull "''a''"]
    success_body_not_validated
      [of "simulated 201 ''7'' (decode_only ''7'' (JNumber (7 :: nat)))"
          "''http://localhost:8000''" "\<lparr>status = 201, body = ''7''\<rparr>" "JNumber 7" "''a''"]
    success_body_not_validated
      [of "simulated 200 ''{}'' (decode_only ''{}'' (JObject [] :: nat json))"
          "''http://localhost:8000''" "\<lparr>status = 200, body = ''{}''\<rparr>" "JObject []" "''a''"]
    success_body_not_validated
      [of "simulated 200 ''[]'' (decode_only ''[]'' (JArray [] :: nat json))"
          "''http://localhost:8000''" "\<lparr>status = 200, body = ''[]''\<rparr>" "JArray []" "''a''"]
    success_body_not_validated
      [of "simulated 299 ''{}'' (decode_only ''{}'' (JObject [] :: nat json))"
          "''http://localhost:8000''" "\<lparr>status = 299, body = ''{}''\<rparr>" "JObject []" "''a''"]
  by (simp add: simulated_def decode_only_def is_lecture_def)

end
